theory Spec2Isabelle
  imports Complex_Main "HOL-Library.Sublist"
begin

section \<open>JavaScript strings\<close>

text \<open>
  A string is a list of characters, one \<^typ>\<open>char\<close> per UTF-16 code unit, over the
  Latin-1 repertoire (code points below 256). That covers every literal of the pages
  (Spanish text included); characters beyond it are outside the model.
\<close>

text \<open>\<^verbatim>\<open>String.prototype.toLowerCase\<close> on Latin-1: A-Z and the accented capitals
  U+00C0..U+00DE (the multiplication sign U+00D7 apart) move up by 32.\<close>

definition toLowerCase_char :: "char \<Rightarrow> char" where
  "toLowerCase_char c =
     (let n = (of_char c :: nat) in
      if (65 \<le> n \<and> n \<le> 90) \<or> (192 \<le> n \<and> n \<le> 222 \<and> n \<noteq> 215)
      then char_of (n + 32) else c)"

definition toLowerCase :: "string \<Rightarrow> string" where
  "toLowerCase s = map toLowerCase_char s"

text \<open>\<^verbatim>\<open>String.prototype.trim\<close>: the white space and line terminators of ECMAScript
  that lie in Latin-1 are TAB, LF, VT, FF, CR, SP and NBSP.\<close>

definition isWhiteSpace :: "char \<Rightarrow> bool" where
  "isWhiteSpace c = ((of_char c :: nat) \<in> {9, 10, 11, 12, 13, 32, 160})"

definition trim :: "string \<Rightarrow> string" where
  "trim s = rev (dropWhile isWhiteSpace (rev (dropWhile isWhiteSpace s)))"


text \<open>\<^verbatim>\<open>Array.prototype.join\<close> on an array of strings.\<close>

fun join :: "string \<Rightarrow> string list \<Rightarrow> string" where
  "join sep [] = []"
| "join sep [x] = x"
| "join sep (x # y # ys) = x @ sep @ join sep (y # ys)"

section \<open>JavaScript numbers\<close>

text \<open>
  A JavaScript number is an IEEE 754 double: a finite value (a rational that the format
  represents), an infinity, or \<^verbatim>\<open>NaN\<close>. The negative zero is not told apart from
  zero.
\<close>

datatype number = Finite rat | PosInfinity | NegInfinity | NaN


text \<open>The rounding of the arithmetic: \<open>fl x\<close> is the double nearest to the exact
  result \<open>x\<close>, or \<open>None\<close> when \<open>x\<close> is beyond the range of the format, where the
  operation overflows to the infinity of the sign of \<open>x\<close>. It is a parameter of the
  operations: what is proved of them holds for the rounding of IEEE 754 as for any
  other.\<close>

definition js_round :: "(rat \<Rightarrow> rat option) \<Rightarrow> rat \<Rightarrow> number" where
  "js_round fl x =
     (case fl x of Some r \<Rightarrow> Finite r | None \<Rightarrow> if 0 < x then PosInfinity else NegInfinity)"

text \<open>\<^verbatim>\<open>a + b\<close> on numbers: \<^verbatim>\<open>NaN\<close> is contagious, opposite infinities give
  \<^verbatim>\<open>NaN\<close>, an infinity absorbs every finite value, and a finite sum is rounded.\<close>

fun js_add :: "(rat \<Rightarrow> rat option) \<Rightarrow> number \<Rightarrow> number \<Rightarrow> number" where
  "js_add fl NaN b = NaN"
| "js_add fl a NaN = NaN"
| "js_add fl PosInfinity NegInfinity = NaN"
| "js_add fl NegInfinity PosInfinity = NaN"
| "js_add fl PosInfinity b = PosInfinity"
| "js_add fl NegInfinity b = NegInfinity"
| "js_add fl a PosInfinity = PosInfinity"
| "js_add fl a NegInfinity = NegInfinity"
| "js_add fl (Finite x) (Finite y) = js_round fl (x + y)"


section \<open>The chat page (frontend/src/pages/Chat.tsx)\<close>

datatype role = User | Assistant

record Message =
  msg_id :: nat
  role :: role
  content :: string
  timestamp :: string

record BackendHistoryItem =
  h_role :: role
  h_content :: string

record ChatHistoryResponse =
  h_customer_id :: string
  history :: "BackendHistoryItem list"

text \<open>\<^verbatim>\<open>reservation_data?: Record<string, any> | null\<close>: absent and null are
  \<open>None\<close>; the payload type is left open.\<close>

record 'd ChatResponse =
  response :: string
  route :: string
  pending_reservation :: bool
  pending_update :: bool
  pending_cancel :: bool
  reservation_data :: "'d option"
  customer_id :: string

text \<open>What a \<^verbatim>\<open>fetch\<close> followed by \<^verbatim>\<open>res.json()\<close> can come to: the promise
  rejects; the response is not OK, with its status and its body text (\<open>None\<close> when
  reading the text fails); the body is not the JSON expected; or the data arrive.\<close>

datatype 'a fetch_result = NetworkError | HttpError nat "string option" | BadJson | Ok 'a

text \<open>The state of the \<^verbatim>\<open>ChatContent\<close> component, with the toasts it has raised.\<close>

record chat_state =
  messages :: "Message list"
  input :: string
  isLoading :: bool
  toasts :: "string list"

definition DASHBOARD_CUSTOMER_ID :: string where
  "DASHBOARD_CUSTOMER_ID = ''dashboard-demo''"

definition greeting :: string where
  "greeting = CHR 0xA1 # ''Hola! Soy tu asistente de reservaciones. Preg'' @ [CHR 0xFA] @
     ''ntame por horarios, disponibilidad o deja que te ayude a crear una reserva.''"

definition greeting_offline :: string where
  "greeting_offline = CHR 0xA1 # ''Hola! Soy tu asistente de reservaciones. '' @
     ''Tu backend de chat parece no estar disponible, pero igual puedes escribir y revisamos.''"

definition try_again :: string where
  "try_again = ''Hubo un problema al conectar con el servidor de chat. '' @
     ''Intenta de nuevo en unos momentos.''"

text \<open>\<^verbatim>\<open>loadHistory\<close>. \<open>now k\<close> is what the \<open>k\<close>-th reading of the clock
  (\<^verbatim>\<open>new Date().toLocaleTimeString()\<close>) of the call returns. A response that is not
  OK gives the greeting; its body is read only when the status is not 404, and a failure
  there, like every other exception, reaches the \<^verbatim>\<open>catch\<close>.\<close>

definition loadHistory ::
  "(nat \<Rightarrow> string) \<Rightarrow> ChatHistoryResponse fetch_result \<Rightarrow> chat_state \<Rightarrow> chat_state" where
  "loadHistory now res st =
     (let offline =
            st\<lparr>toasts := toasts st @ [''No pude cargar el historial de chat.''],
               messages :=
                 [\<lparr>msg_id = 1, role = Assistant, content = greeting_offline,
                   timestamp = now 0\<rparr>],
               isLoading := False\<rparr>
      in case res of
           HttpError status body \<Rightarrow>
             if status \<noteq> 404 \<and> body = None then offline
             else st\<lparr>messages :=
                       [\<lparr>msg_id = 1, role = Assistant, content = greeting, timestamp = now 0\<rparr>],
                     isLoading := False\<rparr>
         | Ok data \<Rightarrow>
             (let mapped = map (\<lambda>(idx, m). \<lparr>msg_id = idx + 1, role = h_role m,
                                    content = h_content m, timestamp = now idx\<rparr>)
                               (enumerate 0 (history data));
                  mapped' = (if length mapped = 0
                             then mapped @ [\<lparr>msg_id = 1, role = Assistant, content = greeting,
                                              timestamp = now 0\<rparr>]
                             else mapped)
              in st\<lparr>messages := mapped', isLoading := False\<rparr>)
         | _ \<Rightarrow> offline)"

text \<open>The notes of the pending flags, one per flag that is set, in the source's order.\<close>

definition pending_info :: "'d ChatResponse \<Rightarrow> string list" where
  "pending_info data =
     (if pending_reservation data
      then [''tengo una reservaci'' @ [CHR 0xF3] @ ''n pendiente de confirmar''] else []) @
     (if pending_update data
      then [''hay una actualizaci'' @ [CHR 0xF3] @ ''n pendiente de reservaci'' @ [CHR 0xF3] @ ''n'']
      else []) @
     (if pending_cancel data
      then [''hay una cancelaci'' @ [CHR 0xF3] @ ''n pendiente de confirmar''] else [])"

definition metaMessage :: "(nat \<Rightarrow> string) \<Rightarrow> Message \<Rightarrow> 'd ChatResponse \<Rightarrow> Message" where
  "metaMessage now assistantMessage data =
     \<lparr>msg_id = msg_id assistantMessage + 1, role = Assistant,
      content = ''Nota interna: '' @ join '', '' (pending_info data) @
        ''. Completa el flujo desde el WhatsApp/UX correspondiente.'',
      timestamp = now 2\<rparr>"

text \<open>\<^verbatim>\<open>handleSendMessage\<close>. \<open>post message customer\<close> is what the POST to
  \<^verbatim>\<open>/chat\<close> comes to. Every failure inside the \<^verbatim>\<open>try\<close> (a rejected fetch, a
  response that is not OK, a body that does not parse) reaches the one \<^verbatim>\<open>catch\<close>.\<close>

definition handleSendMessage ::
  "(nat \<Rightarrow> string) \<Rightarrow> (string \<Rightarrow> string \<Rightarrow> 'd ChatResponse fetch_result) \<Rightarrow>
   chat_state \<Rightarrow> chat_state" where
  "handleSendMessage now post st =
     (if trim (input st) = [] then st
      else
        let userMessage = \<lparr>msg_id = length (messages st) + 1, role = User,
                           content = input st, timestamp = now 0\<rparr>;
            prompt = input st;
            st1 = st\<lparr>messages := messages st @ [userMessage], input := [], isLoading := True\<rparr>
        in (case post prompt DASHBOARD_CUSTOMER_ID of
              Ok data \<Rightarrow>
                (let assistantMessage = \<lparr>msg_id = msg_id userMessage + 1, role = Assistant,
                                          content = response data, timestamp = now 1\<rparr>;
                     st2 = st1\<lparr>messages := messages st1 @ [assistantMessage]\<rparr>;
                     st3 = (if pending_reservation data \<or> pending_update data \<or> pending_cancel data
                            then st2\<lparr>messages := messages st2 @
                                       [metaMessage now assistantMessage data]\<rparr>
                            else st2)
                 in st3\<lparr>isLoading := False\<rparr>)
            | _ \<Rightarrow>
                (let errorMessage = \<lparr>msg_id = length (messages st) + 2, role = Assistant,
                                      content = try_again, timestamp = now 1\<rparr>
                 in st1\<lparr>toasts := toasts st1 @ [''Error al enviar el mensaje al backend.''],
                        messages := messages st1 @ [errorMessage],
                        isLoading := False\<rparr>)))"

section \<open>The reservations page (frontend/src/pages/Reservations.tsx)\<close>

text \<open>The \<^verbatim>\<open>Reservation\<close> interface. The page reads \<^verbatim>\<open>status\<close> and
  \<^verbatim>\<open>guests\<close> defensively (\<^verbatim>\<open>r.status?.toLowerCase()\<close>, \<^verbatim>\<open>r.guests ?? 0\<close>), so both
  may be missing in a row.\<close>

record Reservation =
  rv_id :: number
  rv_customer_id :: number
  rv_date :: string
  rv_time :: string
  rv_guests :: "number option"
  rv_status :: "string option"
  rv_name :: "string option"
  rv_phone :: "string option"
  rv_notes :: "string option"
  rv_table_number :: "string option"

definition totalReservations :: "Reservation list \<Rightarrow> nat" where
  "totalReservations reservations = length reservations"

text \<open>\<^verbatim>\<open>r.status?.toLowerCase() === "confirmed"\<close>: a missing status gives
  \<^verbatim>\<open>undefined\<close>, which equals no string.\<close>

definition confirmedCount :: "Reservation list \<Rightarrow> nat" where
  "confirmedCount reservations =
     length (filter (\<lambda>r. map_option toLowerCase (rv_status r) = Some ''confirmed'') reservations)"

definition pendingCount :: "Reservation list \<Rightarrow> nat" where
  "pendingCount reservations =
     length (filter (\<lambda>r. map_option toLowerCase (rv_status r) = Some ''pending'') reservations)"

text \<open>\<^verbatim>\<open>reservations.reduce((acc, r) => acc + (r.guests ?? 0), 0)\<close>.\<close>

definition totalGuests :: "(rat \<Rightarrow> rat option) \<Rightarrow> Reservation list \<Rightarrow> number" where
  "totalGuests fl reservations =
     foldl (\<lambda>acc r. js_add fl acc (case rv_guests r of None \<Rightarrow> Finite 0 | Some g \<Rightarrow> g))
       (Finite 0) reservations"

text \<open>The letters of Latin-1 that come in two cases, capital and small, position by
  position: A to Z, and the accented capitals with their small forms.\<close>

definition upper_case_letters :: string where
  "upper_case_letters = ''ABCDEFGHIJKLMNOPQRSTUVWXYZ'' @
     [CHR 0xC0, CHR 0xC1, CHR 0xC2, CHR 0xC3, CHR 0xC4, CHR 0xC5, CHR 0xC6, CHR 0xC7,
      CHR 0xC8, CHR 0xC9, CHR 0xCA, CHR 0xCB, CHR 0xCC, CHR 0xCD, CHR 0xCE, CHR 0xCF,
      CHR 0xD0, CHR 0xD1, CHR 0xD2, CHR 0xD3, CHR 0xD4, CHR 0xD5, CHR 0xD6,
      CHR 0xD8, CHR 0xD9, CHR 0xDA, CHR 0xDB, CHR 0xDC, CHR 0xDD, CHR 0xDE]"

definition lower_case_letters :: string where
  "lower_case_letters = ''abcdefghijklmnopqrstuvwxyz'' @
     [CHR 0xE0, CHR 0xE1, CHR 0xE2, CHR 0xE3, CHR 0xE4, CHR 0xE5, CHR 0xE6, CHR 0xE7,
      CHR 0xE8, CHR 0xE9, CHR 0xEA, CHR 0xEB, CHR 0xEC, CHR 0xED, CHR 0xEE, CHR 0xEF,
      CHR 0xF0, CHR 0xF1, CHR 0xF2, CHR 0xF3, CHR 0xF4, CHR 0xF5, CHR 0xF6,
      CHR 0xF8, CHR 0xF9, CHR 0xFA, CHR 0xFB, CHR 0xFC, CHR 0xFD, CHR 0xFE]"

text \<open>Two characters are the same letter up to case: they are equal, or one is a
  capital of the alphabet above and the other the small letter at its position.\<close>

definition same_letter :: "char \<Rightarrow> char \<Rightarrow> bool" where
  "same_letter a b =
     (a = b \<or> (a, b) \<in> set (zip upper_case_letters lower_case_letters)
            \<or> (b, a) \<in> set (zip upper_case_letters lower_case_letters))"

text \<open>Two strings are equal up to letter case: the same length, and the same letter up
  to case at every position. This is the reading of "compares case-insensitively equal"
  that the counters and the search are checked against; it is stated on the alphabet,
  not on \<^verbatim>\<open>toLowerCase\<close>.\<close>

definition eq_ignore_case :: "string \<Rightarrow> string \<Rightarrow> bool" where
  "eq_ignore_case s t = list_all2 same_letter s t"

definition status_is :: "string \<Rightarrow> Reservation \<Rightarrow> bool" where
  "status_is label r = (case rv_status r of None \<Rightarrow> False | Some s \<Rightarrow> eq_ignore_case s label)"

section \<open>The menu page (frontend/src/pages/Menu.tsx)\<close>

record MenuItem =
  item_id :: string
  name :: string
  description :: string
  price :: number
  category :: string
  available :: bool



section \<open>The CRM page (frontend/src/pages/CRM.tsx)\<close>

record Customer =
  c_customer_id :: number
  c_name :: string
  email :: "string option"
  whatsapp :: "string option"
  birth_date :: "string option"
  visits_count :: number
  last_visit :: "string option"
  average_ticket :: number
  preferences :: "string list"
  allergies :: "string list"

definition totalCustomers :: "Customer list \<Rightarrow> nat" where
  "totalCustomers customers = length customers"

definition totalVisits :: "(rat \<Rightarrow> rat option) \<Rightarrow> Customer list \<Rightarrow> number" where
  "totalVisits fl customers = foldl (\<lambda>acc c. js_add fl acc (visits_count c)) (Finite 0) customers"


section \<open>The turn result of the specification\<close>

text \<open>Modelled from the spec: the Turn Result of sections 3 and 6, the value the
  orchestrator returns: reply text, route taken, the three pending flags and an
  optional echo of the reservation data. The backend's own declaration is missing; the
  page declares its view of it as \<^verbatim>\<open>ChatResponse\<close>.\<close>

record 'd TurnResult =
  tr_reply :: string
  tr_route :: string
  tr_pending_reservation :: bool
  tr_pending_update :: bool
  tr_pending_cancel :: bool
  tr_reservation_data :: "'d option"

section \<open>The conversational reservation orchestrator\<close>

text \<open>
  The orchestrator, its tracker, its executor and its stores are backend code
  (\<^verbatim>\<open>backend/src/core\<close>: \<^verbatim>\<open>graph.py\<close>, \<^verbatim>\<open>tools.py\<close>, \<^verbatim>\<open>services\<close>), which
  is not among the sources at hand: only the page that calls it is. The definitions of
  this section are therefore modelled from the specification, section by section.
\<close>

subsection \<open>Data model\<close>

text \<open>Modelled from the spec: the reservation status and the kind of a pending action
  (section 3); the backend's own declarations are missing.\<close>

datatype res_status = Pending | Confirmed | Cancelled

datatype action_kind = Create | Update | Cancel

text \<open>Modelled from the spec: the slots of a draft (glossary: date, time, party size,
  target id) and the draft as a mapping from slot to value, a slot being filled or
  not.\<close>

datatype slot = Date | Time | PartySize | TargetId

record draft =
  d_date :: "string option"
  d_time :: "string option"
  d_party_size :: "nat option"
  d_target_id :: "nat option"

text \<open>Modelled from the spec: the Reservation of section 3.\<close>

record reservation =
  res_id :: nat
  res_customer :: string
  res_date :: string
  res_time :: string
  res_party_size :: nat
  res_status :: res_status
  res_table :: "string option"
  res_notes :: "string option"

text \<open>Modelled from the spec: the states of the Pending-Action Tracker other than
  \<open>none\<close> (section 4.2); the action token is assigned on entering
  \<open>awaiting-confirmation\<close> (section 4.3), so that state carries it.\<close>

datatype tracker_state = Collecting | AwaitingConfirmation nat

text \<open>Modelled from the spec: the PendingAction of section 3.\<close>

record pending_action =
  pa_customer :: string
  pa_kind :: action_kind
  pa_draft :: draft
  pa_created :: nat
  pa_expiry :: nat
  pa_state :: tracker_state

text \<open>Modelled from the spec: a turn of the SessionHistory, and the session a customer
  has in the Conversation Session Store: the history and at most one pending action
  (sections 3 and 4.4).\<close>

record turn =
  t_role :: role
  t_content :: string
  t_timestamp :: nat

record session =
  s_history :: "turn list"
  s_pending :: "pending_action option"

subsection \<open>Reservation Store\<close>

text \<open>Modelled from the spec: the error kinds of section 7 that the Tool Executor can
  return, and the two kinds of calendar failure of section 6.\<close>

datatype cal_error = Transport | Rejected

datatype exec_error = NotFound | ExecutionConflict | CalendarSyncFailure cal_error | SlotIncomplete

text \<open>Modelled from the spec: \<open>get(id)\<close> of the Reservation Store (section 6). The
  store is the list of its reservations; the first row of an identifier is the one the
  store answers with.\<close>

definition store_get :: "nat \<Rightarrow> reservation list \<Rightarrow> reservation option" where
  "store_get i rows = find (\<lambda>r. res_id r = i) rows"

text \<open>Modelled from the spec: the identifier a created reservation receives, one above
  every identifier in the store.\<close>

fun max_id :: "reservation list \<Rightarrow> nat" where
  "max_id [] = 0"
| "max_id (r # rows) = max (res_id r) (max_id rows)"

text \<open>Modelled from the spec: writing a row back under its identifier, and removing the
  row of an identifier, the two store writes that updates and compensations come to.\<close>

fun replace_first :: "nat \<Rightarrow> reservation \<Rightarrow> reservation list \<Rightarrow> reservation list" where
  "replace_first i new [] = []"
| "replace_first i new (r # rows) =
     (if res_id r = i then new # rows else r # replace_first i new rows)"

fun store_delete :: "nat \<Rightarrow> reservation list \<Rightarrow> reservation list" where
  "store_delete i [] = []"
| "store_delete i (r # rows) = (if res_id r = i then rows else r # store_delete i rows)"

text \<open>Modelled from the spec: \<open>create(customer_id, draft)\<close> of the Reservation Store
  (section 6). A draft without date, time or party size cannot be created; a conflict
  (the store's own test, \<open>conflict\<close>) is an error of its own kind. A created
  reservation is confirmed (section 8, first scenario).\<close>

definition store_create ::
  "(reservation list \<Rightarrow> reservation \<Rightarrow> bool) \<Rightarrow> string \<Rightarrow> draft \<Rightarrow> reservation list \<Rightarrow>
   exec_error + (reservation list \<times> reservation)" where
  "store_create conflict customer d rows =
     (case (d_date d, d_time d, d_party_size d) of
        (Some da, Some ti, Some n) \<Rightarrow>
          (let r = \<lparr>res_id = Suc (max_id rows), res_customer = customer, res_date = da,
                    res_time = ti, res_party_size = n, res_status = Confirmed,
                    res_table = None, res_notes = None\<rparr>
           in if conflict rows r then Inl ExecutionConflict else Inr (rows @ [r], r))
      | _ \<Rightarrow> Inl SlotIncomplete)"

text \<open>Modelled from the spec: the changed fields of an update, taken from the draft: a
  filled slot overwrites the field, an empty one leaves it.\<close>

definition apply_fields :: "draft \<Rightarrow> reservation \<Rightarrow> reservation" where
  "apply_fields d r =
     r\<lparr>res_date := (case d_date d of Some v \<Rightarrow> v | None \<Rightarrow> res_date r),
       res_time := (case d_time d of Some v \<Rightarrow> v | None \<Rightarrow> res_time r),
       res_party_size := (case d_party_size d of Some v \<Rightarrow> v | None \<Rightarrow> res_party_size r)\<rparr>"

text \<open>Modelled from the spec: \<open>update(id, fields)\<close> of the Reservation Store
  (section 6), which also hands back the row as it was, for the compensation.\<close>

definition store_update ::
  "(reservation list \<Rightarrow> reservation \<Rightarrow> bool) \<Rightarrow> nat \<Rightarrow> draft \<Rightarrow> reservation list \<Rightarrow>
   exec_error + (reservation list \<times> reservation \<times> reservation)" where
  "store_update conflict i d rows =
     (case store_get i rows of
        None \<Rightarrow> Inl NotFound
      | Some prior \<Rightarrow>
          (let r = apply_fields d prior
           in if conflict rows r then Inl ExecutionConflict
              else Inr (replace_first i r rows, prior, r)))"

text \<open>Modelled from the spec: \<open>cancel(id)\<close> of the Reservation Store (section 6),
  which also hands back the row as it was.\<close>

definition store_cancel ::
  "nat \<Rightarrow> reservation list \<Rightarrow> exec_error + (reservation list \<times> reservation \<times> reservation)" where
  "store_cancel i rows =
     (case store_get i rows of
        None \<Rightarrow> Inl NotFound
      | Some prior \<Rightarrow>
          (let r = prior\<lparr>res_status := Cancelled\<rparr>
           in Inr (replace_first i r rows, prior, r)))"

text \<open>Modelled from the spec: the compensations of section 4.3 on an update and on a
  cancel: restore the prior field values, restore the prior status.\<close>

definition restore_fields :: "reservation \<Rightarrow> reservation list \<Rightarrow> reservation list" where
  "restore_fields prior rows =
     (case store_get (res_id prior) rows of
        None \<Rightarrow> rows
      | Some r \<Rightarrow>
          replace_first (res_id prior)
            (r\<lparr>res_date := res_date prior, res_time := res_time prior,
               res_party_size := res_party_size prior\<rparr>) rows)"

definition restore_status :: "reservation \<Rightarrow> reservation list \<Rightarrow> reservation list" where
  "restore_status prior rows =
     (case store_get (res_id prior) rows of
        None \<Rightarrow> rows
      | Some r \<Rightarrow> replace_first (res_id prior) (r\<lparr>res_status := res_status prior\<rparr>) rows)"

subsection \<open>Calendar Adapter and Tool Executor\<close>

text \<open>Modelled from the spec: the collaborators of the Tool Executor (section 6): the
  store's conflict test and the three operations of the Calendar Adapter over a
  calendar state \<open>'c\<close>. A calendar operation that fails leaves the calendar as it
  was.\<close>

record 'c collaborators =
  conflict :: "reservation list \<Rightarrow> reservation \<Rightarrow> bool"
  create_event :: "'c \<Rightarrow> reservation \<Rightarrow> cal_error + ('c \<times> string)"
  update_event :: "'c \<Rightarrow> string \<Rightarrow> reservation \<Rightarrow> cal_error + 'c"
  delete_event :: "'c \<Rightarrow> string \<Rightarrow> cal_error + 'c"

text \<open>Modelled from the spec: the ExecutionResult of section 4.3.\<close>

record execution_result =
  er_reservation :: reservation
  er_calendar_event_id :: "string option"

text \<open>Modelled from the spec: what the Tool Executor acts on: the Reservation Store,
  the calendar, the event that mirrors each reservation, and the result of every
  action token marked executed (section 4.3).\<close>

record 'c world =
  res_store :: "reservation list"
  calendar :: 'c
  event_ids :: "nat \<rightharpoonup> string"
  executed :: "nat \<rightharpoonup> execution_result"

text \<open>Modelled from the spec: \<open>execute(kind, draft, customer)\<close> of section 4.3. The
  storage mutation comes first, the calendar mutation second; when the calendar step
  fails, the storage mutation is reverted by a compensating write and the failure is
  returned. A cancel of a cancelled reservation is a success that changes nothing.\<close>

definition execute_create ::
  "'c collaborators \<Rightarrow> draft \<Rightarrow> string \<Rightarrow> 'c world \<Rightarrow> (exec_error + execution_result) \<times> 'c world" where
  "execute_create co d customer w =
     (case store_create (conflict co) customer d (res_store w) of
        Inl e \<Rightarrow> (Inl e, w)
      | Inr (rows1, r) \<Rightarrow>
          (case create_event co (calendar w) r of
             Inl ce \<Rightarrow>
               (Inl (CalendarSyncFailure ce), w\<lparr>res_store := store_delete (res_id r) rows1\<rparr>)
           | Inr (cal1, ev) \<Rightarrow>
               (Inr \<lparr>er_reservation = r, er_calendar_event_id = Some ev\<rparr>,
                w\<lparr>res_store := rows1, calendar := cal1,
                  event_ids := (event_ids w)(res_id r \<mapsto> ev)\<rparr>)))"

definition execute_update ::
  "'c collaborators \<Rightarrow> draft \<Rightarrow> 'c world \<Rightarrow> (exec_error + execution_result) \<times> 'c world" where
  "execute_update co d w =
     (case d_target_id d of
        None \<Rightarrow> (Inl SlotIncomplete, w)
      | Some i \<Rightarrow>
          (case store_update (conflict co) i d (res_store w) of
             Inl e \<Rightarrow> (Inl e, w)
           | Inr (rows1, prior, r) \<Rightarrow>
               (case event_ids w i of
                  Some ev \<Rightarrow>
                    (case update_event co (calendar w) ev r of
                       Inl ce \<Rightarrow>
                         (Inl (CalendarSyncFailure ce), w\<lparr>res_store := restore_fields prior rows1\<rparr>)
                     | Inr cal1 \<Rightarrow>
                         (Inr \<lparr>er_reservation = r, er_calendar_event_id = Some ev\<rparr>,
                          w\<lparr>res_store := rows1, calendar := cal1\<rparr>))
                | None \<Rightarrow>
                    (case create_event co (calendar w) r of
                       Inl ce \<Rightarrow>
                         (Inl (CalendarSyncFailure ce), w\<lparr>res_store := restore_fields prior rows1\<rparr>)
                     | Inr (cal1, ev) \<Rightarrow>
                         (Inr \<lparr>er_reservation = r, er_calendar_event_id = Some ev\<rparr>,
                          w\<lparr>res_store := rows1, calendar := cal1,
                            event_ids := (event_ids w)(i \<mapsto> ev)\<rparr>)))))"

definition execute_cancel ::
  "'c collaborators \<Rightarrow> draft \<Rightarrow> 'c world \<Rightarrow> (exec_error + execution_result) \<times> 'c world" where
  "execute_cancel co d w =
     (case d_target_id d of
        None \<Rightarrow> (Inl SlotIncomplete, w)
      | Some i \<Rightarrow>
          (case store_get i (res_store w) of
             None \<Rightarrow> (Inl NotFound, w)
           | Some current \<Rightarrow>
               if res_status current = Cancelled
               then (Inr \<lparr>er_reservation = current, er_calendar_event_id = event_ids w i\<rparr>, w)
               else
                 (case store_cancel i (res_store w) of
                    Inl e \<Rightarrow> (Inl e, w)
                  | Inr (rows1, prior, r) \<Rightarrow>
                      (case event_ids w i of
                         None \<Rightarrow>
                           (Inr \<lparr>er_reservation = r, er_calendar_event_id = None\<rparr>,
                            w\<lparr>res_store := rows1\<rparr>)
                       | Some ev \<Rightarrow>
                           (case delete_event co (calendar w) ev of
                              Inl ce \<Rightarrow>
                                (Inl (CalendarSyncFailure ce),
                                 w\<lparr>res_store := restore_status prior rows1\<rparr>)
                            | Inr cal1 \<Rightarrow>
                                (Inr \<lparr>er_reservation = r, er_calendar_event_id = None\<rparr>,
                                 w\<lparr>res_store := rows1, calendar := cal1,
                                   event_ids := (event_ids w)(i := None)\<rparr>))))))"

fun execute ::
  "'c collaborators \<Rightarrow> action_kind \<Rightarrow> draft \<Rightarrow> string \<Rightarrow> 'c world \<Rightarrow>
   (exec_error + execution_result) \<times> 'c world" where
  "execute co Create d customer w = execute_create co d customer w"
| "execute co Update d customer w = execute_update co d w"
| "execute co Cancel d customer w = execute_cancel co d w"

text \<open>Modelled from the spec: the idempotency of section 4.3. A request bearing a token
  already marked executed is answered with the previous result and does nothing; any
  other request is executed, and a success marks its token with the result.\<close>

definition execute_once ::
  "'c collaborators \<Rightarrow> nat \<Rightarrow> action_kind \<Rightarrow> draft \<Rightarrow> string \<Rightarrow> 'c world \<Rightarrow>
   (exec_error + execution_result) \<times> 'c world" where
  "execute_once co token kind d customer w =
     (case executed w token of
        Some previous \<Rightarrow> (Inr previous, w)
      | None \<Rightarrow>
          (case execute co kind d customer w of
             (Inr res, w1) \<Rightarrow> (Inr res, w1\<lparr>executed := (executed w1)(token \<mapsto> res)\<rparr>)
           | (Inl e, w1) \<Rightarrow> (Inl e, w1)))"

text \<open>Modelled from the spec: a run of execution requests, each a token with a kind, a
  draft and a customer, in arrival order (section 5).\<close>

fun execute_all ::
  "'c collaborators \<Rightarrow> (nat \<times> action_kind \<times> draft \<times> string) list \<Rightarrow> 'c world \<Rightarrow> 'c world" where
  "execute_all co [] w = w"
| "execute_all co ((token, kind, d, customer) # reqs) w =
     execute_all co reqs (snd (execute_once co token kind d customer w))"

subsection \<open>Intent Router and Pending-Action Tracker\<close>

text \<open>Modelled from the spec: the routes of the Intent Router (section 4.1) and the
  label each carries in the turn result.\<close>

datatype intent =
  SmallTalk | MenuQuery | CreateReservation | UpdateReservation | CancelReservation |
  EscalateToHuman

fun route_label :: "intent \<Rightarrow> string" where
  "route_label SmallTalk = ''small-talk''"
| "route_label MenuQuery = ''menu-query''"
| "route_label CreateReservation = ''create-reservation''"
| "route_label UpdateReservation = ''update-reservation''"
| "route_label CancelReservation = ''cancel-reservation''"
| "route_label EscalateToHuman = ''escalate-to-human''"

text \<open>Modelled from the spec: the RouteDecision of section 4.1. With a pending action
  the message is a confirmation, a cancellation, an amendment with the slots it
  supplies, or unrelated and answered as its own route; without one it is routed, with
  the slots extracted from it. The classifier itself is a parameter of the orchestrator
  (section 9).\<close>

datatype route_decision =
  Confirm | Decline | AmendSlot draft | Unrelated intent | Routed intent draft

text \<open>Modelled from the spec: the merge of section 4.2: new slot values go into the
  draft, a later value for a slot overwriting the earlier one.\<close>

definition merge_draft :: "draft \<Rightarrow> draft \<Rightarrow> draft" where
  "merge_draft old new =
     \<lparr>d_date = (case d_date new of Some v \<Rightarrow> Some v | None \<Rightarrow> d_date old),
      d_time = (case d_time new of Some v \<Rightarrow> Some v | None \<Rightarrow> d_time old),
      d_party_size = (case d_party_size new of Some v \<Rightarrow> Some v | None \<Rightarrow> d_party_size old),
      d_target_id = (case d_target_id new of Some v \<Rightarrow> Some v | None \<Rightarrow> d_target_id old)\<rparr>"

text \<open>Modelled from the spec: the slots an action kind still lacks (section 4.2): date,
  time and party size for a create; the target and a changed field for an update; the
  target for a cancel.\<close>

fun missing_slots :: "action_kind \<Rightarrow> draft \<Rightarrow> slot list" where
  "missing_slots Create d =
     (if d_date d = None then [Date] else []) @
     (if d_time d = None then [Time] else []) @
     (if d_party_size d = None then [PartySize] else [])"
| "missing_slots Update d =
     (if d_target_id d = None then [TargetId] else []) @
     (if d_date d = None \<and> d_time d = None \<and> d_party_size d = None
      then [Date, Time, PartySize] else [])"
| "missing_slots Cancel d = (if d_target_id d = None then [TargetId] else [])"

text \<open>Modelled from the spec: the state a draft puts the tracker in (section 4.2):
  \<open>awaiting-confirmation\<close>, with a fresh action token, once no slot is missing,
  \<open>collecting\<close> before. The second component is the next unused token.\<close>

definition settle :: "action_kind \<Rightarrow> draft \<Rightarrow> nat \<Rightarrow> tracker_state \<times> nat" where
  "settle kind d next_token =
     (if missing_slots kind d = [] then (AwaitingConfirmation next_token, Suc next_token)
      else (Collecting, next_token))"

text \<open>Modelled from the spec: the expiry of section 4.2, checked at the start of every
  turn: a pending action older than its time to live is gone, and the turn knows
  it.\<close>

definition expire :: "nat \<Rightarrow> pending_action option \<Rightarrow> pending_action option \<times> bool" where
  "expire now pending =
     (case pending of
        None \<Rightarrow> (None, False)
      | Some p \<Rightarrow> if pa_expiry p < now then (None, True) else (Some p, False))"

fun kind_of_intent :: "intent \<Rightarrow> action_kind option" where
  "kind_of_intent CreateReservation = Some Create"
| "kind_of_intent UpdateReservation = Some Update"
| "kind_of_intent CancelReservation = Some Cancel"
| "kind_of_intent _ = None"

fun intent_of_kind :: "action_kind \<Rightarrow> intent" where
  "intent_of_kind Create = CreateReservation"
| "intent_of_kind Update = UpdateReservation"
| "intent_of_kind Cancel = CancelReservation"

subsection \<open>Orchestrator\<close>

text \<open>Modelled from the spec: what a reply says (section 4.5, steps 3 to 5); the wording
  is the presentation layer's.\<close>

datatype reply_kind =
  ReplyConfirmed execution_result
| ReplyApology exec_error
| ReplyClarify "slot list"
| ReplyAskConfirmation draft
| ReplyDiscarded
| ReplyRoute intent

text \<open>Modelled from the spec: the reservation data a turn result echoes: the current
  draft, or the reservation an execution produced (sections 6 and 8).\<close>

datatype reservation_data = DraftData draft | ReservationData reservation

text \<open>Modelled from the spec: the state the orchestrator works on: the keyed session
  store (section 9), the executor's world and the next unused action token.\<close>

record 'c orchestrator =
  sessions :: "string \<Rightarrow> session"
  world :: "'c world"
  next_token :: nat

record 'c outcome =
  o_pending :: "pending_action option"
  o_reply :: reply_kind
  o_route :: intent
  o_data :: "reservation_data option"
  o_world :: "'c world"
  o_next_token :: nat

text \<open>Modelled from the spec: the tracker with a draft that has just changed: its state
  is settled anew and its expiry pushed back; the reply lists the missing slots or asks
  for the confirmation (section 4.5, step 4).\<close>

definition drafted ::
  "nat \<Rightarrow> nat \<Rightarrow> string \<Rightarrow> action_kind \<Rightarrow> draft \<Rightarrow> nat \<Rightarrow> 'c world \<Rightarrow> nat \<Rightarrow> 'c outcome" where
  "drafted ttl now customer kind d created w next_tok =
     (let (state, next_tok') = settle kind d next_tok;
          p = \<lparr>pa_customer = customer, pa_kind = kind, pa_draft = d, pa_created = created,
               pa_expiry = now + ttl, pa_state = state\<rparr>
      in \<lparr>o_pending = Some p,
          o_reply = (if missing_slots kind d = [] then ReplyAskConfirmation d
                     else ReplyClarify (missing_slots kind d)),
          o_route = intent_of_kind kind, o_data = Some (DraftData d),
          o_world = w, o_next_token = next_tok'\<rparr>)"

text \<open>Modelled from the spec: a reply that leaves the pending state alone (section 4.5,
  step 5, and the unrelated message of section 4.1).\<close>

definition answered ::
  "pending_action option \<Rightarrow> reply_kind \<Rightarrow> intent \<Rightarrow> 'c world \<Rightarrow> nat \<Rightarrow> 'c outcome" where
  "answered pending reply r w next_tok =
     \<lparr>o_pending = pending, o_reply = reply, o_route = r,
      o_data = map_option (\<lambda>p. DraftData (pa_draft p)) pending,
      o_world = w, o_next_token = next_tok\<rparr>"

text \<open>Modelled from the spec: steps 3 to 5 of \<open>handle_turn\<close> (section 4.5) over the
  transitions of section 4.2. With a pending action: a confirmation of a complete draft
  runs the Tool Executor, which clears the pending action on success and keeps it on
  failure; a confirmation of an incomplete draft asks for the missing slots; a
  cancellation discards the draft; an amendment merges its slots; anything else leaves
  the pending action as it is. Without one: a reservation intent opens a pending
  action; a reply to a question never asked is escalated; anything else is answered.\<close>

fun dispatch ::
  "nat \<Rightarrow> nat \<Rightarrow> 'c collaborators \<Rightarrow> string \<Rightarrow> pending_action option \<Rightarrow> route_decision \<Rightarrow>
   'c world \<Rightarrow> nat \<Rightarrow> 'c outcome" where
  "dispatch ttl now co customer (Some p) Confirm w next_tok =
     (case pa_state p of
        AwaitingConfirmation token \<Rightarrow>
          (case execute_once co token (pa_kind p) (pa_draft p) customer w of
             (Inr res, w1) \<Rightarrow>
               \<lparr>o_pending = None, o_reply = ReplyConfirmed res,
                o_route = intent_of_kind (pa_kind p),
                o_data = Some (ReservationData (er_reservation res)),
                o_world = w1, o_next_token = next_tok\<rparr>
           | (Inl e, w1) \<Rightarrow>
               answered (Some p) (ReplyApology e) (intent_of_kind (pa_kind p)) w1 next_tok)
      | Collecting \<Rightarrow>
          answered (Some p) (ReplyClarify (missing_slots (pa_kind p) (pa_draft p)))
            (intent_of_kind (pa_kind p)) w next_tok)"
| "dispatch ttl now co customer (Some p) Decline w next_tok =
     answered None ReplyDiscarded (intent_of_kind (pa_kind p)) w next_tok"
| "dispatch ttl now co customer (Some p) (AmendSlot d) w next_tok =
     drafted ttl now customer (pa_kind p) (merge_draft (pa_draft p) d) (pa_created p) w next_tok"
| "dispatch ttl now co customer (Some p) (Unrelated r) w next_tok =
     answered (Some p) (ReplyRoute r) r w next_tok"
| "dispatch ttl now co customer (Some p) (Routed r d) w next_tok =
     answered (Some p) (ReplyRoute r) r w next_tok"
| "dispatch ttl now co customer None (Routed r d) w next_tok =
     (case kind_of_intent r of
        Some kind \<Rightarrow> drafted ttl now customer kind d now w next_tok
      | None \<Rightarrow> answered None (ReplyRoute r) r w next_tok)"
| "dispatch ttl now co customer None (Unrelated r) w next_tok =
     answered None (ReplyRoute r) r w next_tok"
| "dispatch ttl now co customer None decision w next_tok =
     answered None (ReplyRoute EscalateToHuman) EscalateToHuman w next_tok"

text \<open>Modelled from the spec: step 7 of \<open>handle_turn\<close>: the turn result, its three
  pending flags computed from the tracker's state after the turn
  (\<open>pending_reservation\<close> is true iff the kind is create and the state is not
  \<open>none\<close>, and so on).\<close>

definition pending_flag :: "action_kind \<Rightarrow> pending_action option \<Rightarrow> bool" where
  "pending_flag kind pending = (case pending of None \<Rightarrow> False | Some p \<Rightarrow> pa_kind p = kind)"

definition turn_result ::
  "string \<Rightarrow> intent \<Rightarrow> pending_action option \<Rightarrow> reservation_data option \<Rightarrow>
   reservation_data TurnResult" where
  "turn_result reply_text r pending data =
     \<lparr>tr_reply = reply_text, tr_route = route_label r,
      tr_pending_reservation = pending_flag Create pending,
      tr_pending_update = pending_flag Update pending,
      tr_pending_cancel = pending_flag Cancel pending,
      tr_reservation_data = data\<rparr>"

text \<open>Modelled from the spec: \<open>handle_turn(customer_id, message)\<close> of section 4.5.
  \<open>router\<close> is the Intent Router, \<open>wording\<close> turns what a reply says (and
  whether the previous request timed out) into its text, \<open>now\<close> is the time of the
  turn and \<open>ttl\<close> the time to live of a pending action.\<close>

definition handle_turn ::
  "nat \<Rightarrow> (string \<Rightarrow> turn list \<Rightarrow> pending_action option \<Rightarrow> route_decision) \<Rightarrow>
   'c collaborators \<Rightarrow> (bool \<Rightarrow> reply_kind \<Rightarrow> string) \<Rightarrow> nat \<Rightarrow> string \<Rightarrow> string \<Rightarrow>
   'c orchestrator \<Rightarrow> reservation_data TurnResult \<times> 'c orchestrator" where
  "handle_turn ttl router co wording now customer message st =
     (let sess = sessions st customer;
          (pending, timed_out) = expire now (s_pending sess);
          decision = router message (s_history sess) pending;
          out = dispatch ttl now co customer pending decision (world st) (next_token st);
          reply_text = wording timed_out (o_reply out);
          sess' = \<lparr>s_history = s_history sess @
                     [\<lparr>t_role = User, t_content = message, t_timestamp = now\<rparr>,
                      \<lparr>t_role = Assistant, t_content = reply_text, t_timestamp = now\<rparr>],
                   s_pending = o_pending out\<rparr>
      in (turn_result reply_text (o_route out) (o_pending out) (o_data out),
          st\<lparr>sessions := (sessions st)(customer := sess'), world := o_world out,
             next_token := o_next_token out\<rparr>))"

section \<open>Properties of the chat page\<close>

lemma messages_handleSendMessage:
  "messages (handleSendMessage now post st) =
     (if trim (input st) = [] then messages st
      else messages st @
        \<lparr>msg_id = length (messages st) + 1, role = User, content = input st, timestamp = now 0\<rparr> #
        (case post (input st) DASHBOARD_CUSTOMER_ID of
           Ok data \<Rightarrow>
             \<lparr>msg_id = length (messages st) + 2, role = Assistant, content = response data,
              timestamp = now 1\<rparr> #
             (if pending_reservation data \<or> pending_update data \<or> pending_cancel data
              then [metaMessage now \<lparr>msg_id = length (messages st) + 2, role = Assistant,
                      content = response data, timestamp = now 1\<rparr> data]
              else [])
         | _ \<Rightarrow> [\<lparr>msg_id = length (messages st) + 2, role = Assistant, content = try_again,
                  timestamp = now 1\<rparr>]))"
  by (simp add: handleSendMessage_def Let_def split: fetch_result.split)

lemma pending_info_one_note_per_flag:
  "length (pending_info data) =
     length (filter (\<lambda>b. b) [pending_reservation data, pending_update data, pending_cancel data])"
  by (simp add: pending_info_def)

text \<open>
  Claim C5. Handling a sent message only appends to the message list: the list before
  the call is a prefix of the list after it, so every recorded turn stays, unchanged and
  in its place. On a successful turn (a non-blank input and a response that arrives) the
  user turn and then the assistant turn are appended, followed by at most one note.
\<close>

theorem session_history_append_only:
  "prefix (messages st) (messages (handleSendMessage now post st)) \<and>
   (trim (input st) \<noteq> [] \<and> post (input st) DASHBOARD_CUSTOMER_ID = Ok data \<longrightarrow>
      (\<exists>u a note. messages (handleSendMessage now post st) = messages st @ u # a # note \<and>
         role u = User \<and> content u = input st \<and>
         role a = Assistant \<and> content a = response data \<and> length note \<le> 1))"
proof (intro conjI impI)
  show "prefix (messages st) (messages (handleSendMessage now post st))"
    unfolding messages_handleSendMessage by simp
next
  assume ok: "trim (input st) \<noteq> [] \<and> post (input st) DASHBOARD_CUSTOMER_ID = Ok data"
  then show "\<exists>u a note. messages (handleSendMessage now post st) = messages st @ u # a # note \<and>
         role u = User \<and> content u = input st \<and>
         role a = Assistant \<and> content a = response data \<and> length note \<le> 1"
    unfolding messages_handleSendMessage by simp
qed

text \<open>The theorem at a greeting followed by the message "hola" and an answering backend.\<close>

theorem session_history_append_only_witness:
  "trim ''hola'' \<noteq> [] \<and>
   prefix [\<lparr>msg_id = 1, role = Assistant, content = greeting, timestamp = ''10:00''\<rparr>]
     (messages (handleSendMessage (\<lambda>k. ''10:01'')
        (\<lambda>m c. Ok \<lparr>response = ''Claro'', route = ''small_talk'', pending_reservation = False,
                    pending_update = False, pending_cancel = False,
                    reservation_data = (None :: nat option), customer_id = c\<rparr>)
        \<lparr>messages = [\<lparr>msg_id = 1, role = Assistant, content = greeting, timestamp = ''10:00''\<rparr>],
         input = ''hola'', isLoading = False, toasts = []\<rparr>)) \<and>
   (\<exists>u a note.
      messages (handleSendMessage (\<lambda>k. ''10:01'')
        (\<lambda>m c. Ok \<lparr>response = ''Claro'', route = ''small_talk'', pending_reservation = False,
                    pending_update = False, pending_cancel = False,
                    reservation_data = (None :: nat option), customer_id = c\<rparr>)
        \<lparr>messages = [\<lparr>msg_id = 1, role = Assistant, content = greeting, timestamp = ''10:00''\<rparr>],
         input = ''hola'', isLoading = False, toasts = []\<rparr>) =
      [\<lparr>msg_id = 1, role = Assistant, content = greeting, timestamp = ''10:00''\<rparr>] @ u # a # note \<and>
      role u = User \<and> content u = ''hola'' \<and> role a = Assistant \<and> content a = ''Claro'' \<and>
      length note \<le> 1)"
  using session_history_append_only
    [of "\<lparr>messages = [\<lparr>msg_id = 1, role = Assistant, content = greeting, timestamp = ''10:00''\<rparr>],
         input = ''hola'', isLoading = False, toasts = []\<rparr>"
        "\<lambda>k. ''10:01''"
        "\<lambda>m c. Ok \<lparr>response = ''Claro'', route = ''small_talk'', pending_reservation = False,
                    pending_update = False, pending_cancel = False,
                    reservation_data = (None :: nat option), customer_id = c\<rparr>"
        "\<lparr>response = ''Claro'', route = ''small_talk'', pending_reservation = False,
                    pending_update = False, pending_cancel = False,
                    reservation_data = (None :: nat option), customer_id = DASHBOARD_CUSTOMER_ID\<rparr>"]
  by (simp add: trim_def isWhiteSpace_def)

text \<open>
  Claim C6. When the call to the chat backend fails (the fetch rejects, the response is
  not OK, or its body does not parse), the turn ends with the try-again message and an
  error toast: the list gains the user's message and that message only, so neither an
  assistant answer nor a note on pending state is recorded.
\<close>

theorem failed_turn_asks_to_try_again:
  assumes "trim (input st) \<noteq> []"
    and "\<forall>data. post (input st) DASHBOARD_CUSTOMER_ID \<noteq> Ok data"
  shows "messages (handleSendMessage now post st) =
           messages st @
           [\<lparr>msg_id = length (messages st) + 1, role = User, content = input st,
              timestamp = now 0\<rparr>,
            \<lparr>msg_id = length (messages st) + 2, role = Assistant, content = try_again,
              timestamp = now 1\<rparr>] \<and>
         toasts (handleSendMessage now post st) =
           toasts st @ [''Error al enviar el mensaje al backend.''] \<and>
         \<not> isLoading (handleSendMessage now post st)"
proof (cases "post (input st) DASHBOARD_CUSTOMER_ID")
  case (Ok data)
  with assms(2) show ?thesis by simp
qed (use assms(1) in \<open>simp_all add: handleSendMessage_def Let_def\<close>)

text \<open>The theorem at the message "hola" answered by HTTP 500.\<close>

theorem failed_turn_asks_to_try_again_witness:
  "trim ''hola'' \<noteq> [] \<and>
   messages (handleSendMessage (\<lambda>k. ''10:01'')
      (\<lambda>m c. (HttpError 500 (Some ''Internal Server Error'') :: nat ChatResponse fetch_result))
      \<lparr>messages = [], input = ''hola'', isLoading = False, toasts = []\<rparr>) =
     [\<lparr>msg_id = 1, role = User, content = ''hola'', timestamp = ''10:01''\<rparr>,
      \<lparr>msg_id = 2, role = Assistant, content = try_again, timestamp = ''10:01''\<rparr>] \<and>
   toasts (handleSendMessage (\<lambda>k. ''10:01'')
      (\<lambda>m c. (HttpError 500 (Some ''Internal Server Error'') :: nat ChatResponse fetch_result))
      \<lparr>messages = [], input = ''hola'', isLoading = False, toasts = []\<rparr>) =
     [''Error al enviar el mensaje al backend.'']"
  using failed_turn_asks_to_try_again
    [of "\<lparr>messages = [], input = ''hola'', isLoading = False, toasts = []\<rparr>"
        "\<lambda>m c. (HttpError 500 (Some ''Internal Server Error'') :: nat ChatResponse fetch_result)"
        "\<lambda>k. ''10:01''"]
  by (simp add: trim_def isWhiteSpace_def)

text \<open>
  Claim C7. When the history endpoint answers, every turn it returns is shown, in order,
  with its role and text: the list shown has one message per returned turn, none
  dropped. Only for an empty history is the single greeting shown instead.
\<close>

theorem history_rendered_without_truncation:
  "map (\<lambda>m. (role m, content m)) (messages (loadHistory now (Ok data) st)) =
     (if history data = [] then [(Assistant, greeting)]
      else map (\<lambda>h. (h_role h, h_content h)) (history data)) \<and>
   length (messages (loadHistory now (Ok data) st)) = max 1 (length (history data))"
proof -
  let ?render = "\<lambda>(idx, m). \<lparr>msg_id = idx + 1, role = h_role m, content = h_content m,
                              timestamp = now idx\<rparr>"
  have "map (\<lambda>m. (role m, content m)) (map ?render (enumerate 0 (history data))) =
        map ((\<lambda>h. (h_role h, h_content h)) \<circ> snd) (enumerate 0 (history data))"
    by (simp add: comp_def case_prod_unfold)
  also have "\<dots> = map (\<lambda>h. (h_role h, h_content h)) (map snd (enumerate 0 (history data)))"
    by (simp only: map_map)
  finally have shown: "map (\<lambda>m. (role m, content m)) (map ?render (enumerate 0 (history data))) =
        map (\<lambda>h. (h_role h, h_content h)) (history data)"
    by (simp only: map_snd_enumerate)
  show ?thesis
  proof (cases "history data")
    case Nil
    then show ?thesis by (simp add: loadHistory_def Let_def)
  next
    case (Cons h hs)
    with shown show ?thesis by (simp add: loadHistory_def Let_def)
  qed
qed

section \<open>Properties of the reservations page\<close>

lemma lower_of_upper: "map toLowerCase_char upper_case_letters = lower_case_letters"
  by code_simp

lemma upper_codes:
  "(map of_char upper_case_letters :: nat list) = [65..<91] @ [192..<215] @ [216..<223]"
  by code_simp

lemma lower_not_upper: "list_all (\<lambda>c. c \<notin> set upper_case_letters) lower_case_letters"
  by code_simp

lemma distinct_lower: "distinct lower_case_letters"
  by code_simp

lemma upper_case_iff:
  "c \<in> set upper_case_letters \<longleftrightarrow>
     (65 \<le> (of_char c :: nat) \<and> (of_char c :: nat) \<le> 90) \<or>
     (192 \<le> (of_char c :: nat) \<and> (of_char c :: nat) \<le> 222 \<and> (of_char c :: nat) \<noteq> 215)"
proof -
  have "inj (of_char :: char \<Rightarrow> nat)"
    by (simp add: inj_def)
  then have "c \<in> set upper_case_letters \<longleftrightarrow>
      (of_char c :: nat) \<in> of_char ` set upper_case_letters"
    by (simp add: inj_image_mem_iff)
  also have "\<dots> \<longleftrightarrow> (of_char c :: nat) \<in> set ([65..<91] @ [192..<215] @ [216..<223])"
    by (simp only: upper_codes [symmetric] set_map)
  also have "\<dots> \<longleftrightarrow> (65 \<le> (of_char c :: nat) \<and> (of_char c :: nat) \<le> 90) \<or>
     (192 \<le> (of_char c :: nat) \<and> (of_char c :: nat) \<le> 222 \<and> (of_char c :: nat) \<noteq> 215)"
    unfolding set_append set_upt Un_iff atLeastLessThan_iff by arith
  finally show ?thesis .
qed

lemma toLowerCase_char_other:
  assumes "c \<notin> set upper_case_letters"
  shows "toLowerCase_char c = c"
proof -
  from assms have "\<not> ((65 \<le> (of_char c :: nat) \<and> (of_char c :: nat) \<le> 90) \<or>
     (192 \<le> (of_char c :: nat) \<and> (of_char c :: nat) \<le> 222 \<and> (of_char c :: nat) \<noteq> 215))"
    unfolding upper_case_iff by assumption
  then show ?thesis
    unfolding toLowerCase_char_def Let_def by (rule if_not_P)
qed

lemma zip_map_self: "(a, l) \<in> set (zip xs (map f xs)) \<longleftrightarrow> a \<in> set xs \<and> l = f a"
  by (induction xs) auto

lemma case_pair_iff:
  "(a, l) \<in> set (zip upper_case_letters lower_case_letters) \<longleftrightarrow>
     a \<in> set upper_case_letters \<and> l = toLowerCase_char a"
  by (simp only: lower_of_upper [symmetric] zip_map_self)

lemma toLowerCase_char_not_upper: "toLowerCase_char c \<notin> set upper_case_letters"
proof (cases "c \<in> set upper_case_letters")
  case True
  then have "toLowerCase_char c \<in> set (map toLowerCase_char upper_case_letters)"
    by simp
  then have "toLowerCase_char c \<in> set lower_case_letters"
    by (simp only: lower_of_upper)
  with lower_not_upper show ?thesis
    by (simp add: list_all_iff)
next
  case False
  then show ?thesis by (simp add: toLowerCase_char_other)
qed

lemma toLowerCase_char_inj_on_upper: "inj_on toLowerCase_char (set upper_case_letters)"
proof -
  have "distinct (map toLowerCase_char upper_case_letters)"
    by (simp only: lower_of_upper distinct_lower)
  then show ?thesis
    by (simp add: distinct_map)
qed

lemma same_letter_toLowerCase_char:
  "same_letter a b \<longleftrightarrow> toLowerCase_char a = toLowerCase_char b"
proof
  assume "same_letter a b"
  then consider "a = b"
    | "a \<in> set upper_case_letters" "b = toLowerCase_char a"
    | "b \<in> set upper_case_letters" "a = toLowerCase_char b"
    unfolding same_letter_def case_pair_iff by blast
  then show "toLowerCase_char a = toLowerCase_char b"
  proof cases
    case 1
    then show ?thesis by simp
  next
    case 2
    have "toLowerCase_char (toLowerCase_char a) = toLowerCase_char a"
      by (rule toLowerCase_char_other) (rule toLowerCase_char_not_upper)
    with 2 show ?thesis by simp
  next
    case 3
    have "toLowerCase_char (toLowerCase_char b) = toLowerCase_char b"
      by (rule toLowerCase_char_other) (rule toLowerCase_char_not_upper)
    with 3 show ?thesis by simp
  qed
next
  assume eq: "toLowerCase_char a = toLowerCase_char b"
  show "same_letter a b"
  proof (cases "a \<in> set upper_case_letters")
    case a: True
    show ?thesis
    proof (cases "b \<in> set upper_case_letters")
      case True
      with a eq toLowerCase_char_inj_on_upper have "a = b"
        by (simp add: inj_on_def)
      then show ?thesis by (simp add: same_letter_def)
    next
      case False
      with eq have "b = toLowerCase_char a"
        by (simp add: toLowerCase_char_other)
      with a show ?thesis
        unfolding same_letter_def case_pair_iff by blast
    qed
  next
    case a: False
    show ?thesis
    proof (cases "b \<in> set upper_case_letters")
      case True
      from a eq have "a = toLowerCase_char b"
        by (simp add: toLowerCase_char_other)
      with True show ?thesis
        unfolding same_letter_def case_pair_iff by blast
    next
      case False
      with a eq have "a = b"
        by (simp add: toLowerCase_char_other)
      then show ?thesis by (simp add: same_letter_def)
    qed
  qed
qed

lemma eq_ignore_case_toLowerCase:
  "eq_ignore_case s t = (toLowerCase s = toLowerCase t)"
  unfolding eq_ignore_case_def toLowerCase_def same_letter_toLowerCase_char
proof (induction s arbitrary: t)
  case Nil
  then show ?case by auto
next
  case (Cons a s)
  then show ?case by (cases t) auto
qed

lemma eq_ignore_case_examples:
  "eq_ignore_case ''CONFIRMED'' ''confirmed''" "eq_ignore_case ''Pending'' ''pending''"
  "\<not> eq_ignore_case ''cancelled'' ''confirmed''" "eq_ignore_case [CHR 0xD1] [CHR 0xF1]"
  by code_simp+

lemma lowercase_labels:
  "toLowerCase ''confirmed'' = ''confirmed''" "toLowerCase ''pending'' = ''pending''"
  by code_simp+

lemma status_is_confirmed:
  "status_is ''confirmed'' r = (map_option toLowerCase (rv_status r) = Some ''confirmed'')"
  by (cases "rv_status r")
     (simp_all add: status_is_def eq_ignore_case_toLowerCase lowercase_labels)

lemma status_is_pending:
  "status_is ''pending'' r = (map_option toLowerCase (rv_status r) = Some ''pending'')"
  by (cases "rv_status r")
     (simp_all add: status_is_def eq_ignore_case_toLowerCase lowercase_labels)

lemma length_filter_three_way:
  "\<forall>x. \<not> (P x \<and> Q x) \<Longrightarrow>
   length (filter P xs) + length (filter Q xs) +
     length (filter (\<lambda>x. \<not> P x \<and> \<not> Q x) xs) = length xs"
  by (induction xs) auto

text \<open>
  Claim C8. The Confirmed counter counts exactly the reservations whose status equals
  "confirmed" up to letter case, the Pending counter exactly those whose status equals
  "pending" up to letter case. With the reservations of any other status (or of none)
  they add up to the total, so the two counters together never exceed it.
\<close>

theorem reservation_counters:
  "confirmedCount rs = length (filter (status_is ''confirmed'') rs) \<and>
   pendingCount rs = length (filter (status_is ''pending'') rs) \<and>
   confirmedCount rs + pendingCount rs +
     length (filter (\<lambda>r. \<not> status_is ''confirmed'' r \<and> \<not> status_is ''pending'' r) rs) =
     totalReservations rs \<and>
   confirmedCount rs + pendingCount rs \<le> totalReservations rs"
proof -
  have "status_is ''confirmed'' = (\<lambda>r. map_option toLowerCase (rv_status r) = Some ''confirmed'')"
    by (rule ext) (rule status_is_confirmed)
  then have c: "confirmedCount rs = length (filter (status_is ''confirmed'') rs)"
    by (simp only: confirmedCount_def)
  have "status_is ''pending'' = (\<lambda>r. map_option toLowerCase (rv_status r) = Some ''pending'')"
    by (rule ext) (rule status_is_pending)
  then have p: "pendingCount rs = length (filter (status_is ''pending'') rs)"
    by (simp only: pendingCount_def)
  have apart: "\<forall>r. \<not> (status_is ''confirmed'' r \<and> status_is ''pending'' r)"
  proof (intro allI notI)
    fix r assume "status_is ''confirmed'' r \<and> status_is ''pending'' r"
    then have "Some ''confirmed'' = Some ''pending''"
      unfolding status_is_confirmed status_is_pending by (elim conjE) (rule trans [OF sym])
    then show False by simp
  qed
  have total: "length (filter (status_is ''confirmed'') rs) +
      length (filter (status_is ''pending'') rs) +
      length (filter (\<lambda>r. \<not> status_is ''confirmed'' r \<and> \<not> status_is ''pending'' r) rs) =
      length rs"
    using apart by (rule length_filter_three_way)
  from c p total show ?thesis
    by (simp add: totalReservations_def)
qed

section \<open>Properties of the menu page\<close>






section \<open>Properties of the CRM page\<close>








section \<open>Properties of the orchestrator\<close>

lemma store_get_id: "store_get i rows = Some p \<Longrightarrow> res_id p = i"
  by (auto simp: store_get_def find_Some_iff)

lemma store_get_replace_first:
  "store_get i rows = Some p \<Longrightarrow> res_id new = i \<Longrightarrow>
   store_get i (replace_first i new rows) = Some new"
  unfolding store_get_def by (induction rows) (auto split: if_splits)

lemma replace_first_back:
  "store_get i rows = Some p \<Longrightarrow> res_id new = i \<Longrightarrow>
   replace_first i p (replace_first i new rows) = rows"
  unfolding store_get_def by (induction rows) (auto split: if_splits)

lemma res_id_le_max_id: "r \<in> set rows \<Longrightarrow> res_id r \<le> max_id rows"
  by (induction rows) auto

lemma store_delete_appended:
  "\<forall>x \<in> set rows. res_id x \<noteq> i \<Longrightarrow> res_id r = i \<Longrightarrow> store_delete i (rows @ [r]) = rows"
  by (induction rows) auto

lemma store_create_undone:
  assumes "store_create cf customer d rows = Inr (rows1, r)"
  shows "store_delete (res_id r) rows1 = rows"
proof -
  from assms have rows1: "rows1 = rows @ [r]" and fresh: "res_id r = Suc (max_id rows)"
    by (auto simp: store_create_def Let_def split: option.splits if_splits)
  have "\<forall>x \<in> set rows. res_id x \<noteq> Suc (max_id rows)"
    using res_id_le_max_id by fastforce
  with fresh show ?thesis
    unfolding rows1 by (simp add: store_delete_appended)
qed

lemma store_update_undone:
  assumes "store_update cf i d rows = Inr (rows1, prior, r)"
  shows "restore_fields prior rows1 = rows"
proof -
  from assms have get: "store_get i rows = Some prior"
    and r: "r = apply_fields d prior" and rows1: "rows1 = replace_first i r rows"
    by (auto simp: store_update_def Let_def split: option.splits if_splits)
  from get have i: "res_id prior = i" by (rule store_get_id)
  then have ri: "res_id r = i" by (simp add: r apply_fields_def)
  with get have "store_get i rows1 = Some r"
    unfolding rows1 by (rule store_get_replace_first)
  moreover have "r\<lparr>res_date := res_date prior, res_time := res_time prior,
                   res_party_size := res_party_size prior\<rparr> = prior"
    by (simp add: r apply_fields_def)
  ultimately have "restore_fields prior rows1 = replace_first i prior rows1"
    by (simp add: restore_fields_def i)
  with get ri show ?thesis
    unfolding rows1 by (simp add: replace_first_back)
qed

lemma store_cancel_undone:
  assumes "store_cancel i rows = Inr (rows1, prior, r)"
  shows "restore_status prior rows1 = rows"
proof -
  from assms have get: "store_get i rows = Some prior"
    and r: "r = prior\<lparr>res_status := Cancelled\<rparr>" and rows1: "rows1 = replace_first i r rows"
    by (auto simp: store_cancel_def Let_def split: option.splits)
  from get have i: "res_id prior = i" by (rule store_get_id)
  then have ri: "res_id r = i" by (simp add: r)
  with get have "store_get i rows1 = Some r"
    unfolding rows1 by (rule store_get_replace_first)
  moreover have "r\<lparr>res_status := res_status prior\<rparr> = prior"
    by (simp add: r)
  ultimately have "restore_status prior rows1 = replace_first i prior rows1"
    by (simp add: restore_status_def i)
  with get ri show ?thesis
    unfolding rows1 by (simp add: replace_first_back)
qed

lemma execute_create_failure:
  "execute_create co d customer w = (Inl e, w') \<Longrightarrow> w' = w"
  unfolding execute_create_def
  by (auto simp: store_create_undone split: sum.splits prod.splits)

lemma execute_update_failure:
  "execute_update co d w = (Inl e, w') \<Longrightarrow> w' = w"
  unfolding execute_update_def
  by (auto simp: store_update_undone split: sum.splits prod.splits option.splits)

lemma execute_cancel_failure:
  "execute_cancel co d w = (Inl e, w') \<Longrightarrow> w' = w"
  unfolding execute_cancel_def
  by (auto simp: store_cancel_undone split: sum.splits prod.splits option.splits if_splits)

text \<open>
  Claim C2. Whenever \<open>execute\<close> returns a failure, the Reservation Store is as it
  was before the attempt. A failure of the store itself changes nothing; a failure of the
  calendar step comes after the storage mutation, and the compensating write (delete the
  created reservation, restore the prior fields, restore the prior status) undoes it.
\<close>

theorem failed_execution_leaves_store_unchanged:
  assumes "execute co kind d customer w = (Inl e, w')"
  shows "res_store w' = res_store w"
proof (cases kind)
  case Create
  with assms have "w' = w" by (auto dest: execute_create_failure)
  then show ?thesis by simp
next
  case Update
  with assms have "w' = w" by (auto dest: execute_update_failure)
  then show ?thesis by simp
next
  case Cancel
  with assms have "w' = w" by (auto dest: execute_cancel_failure)
  then show ?thesis by simp
qed


text \<open>The theorem at a create whose storage step succeeds and whose calendar step
  fails.\<close>

theorem failed_execution_leaves_store_unchanged_witness:
  "fst (execute
      \<lparr>conflict = (\<lambda>rows r. False), create_event = (\<lambda>c r. Inl Transport),
       update_event = (\<lambda>c ev r. Inl Transport), delete_event = (\<lambda>c ev. Inl Transport)\<rparr>
      Create
      \<lparr>d_date = Some ''2025-11-14'', d_time = Some ''20:00'', d_party_size = Some 4,
       d_target_id = None\<rparr>
      ''dashboard-demo''
      \<lparr>res_store = [], calendar = (0::nat), event_ids = Map.empty, executed = Map.empty\<rparr>) =
     Inl (CalendarSyncFailure Transport) \<and>
   res_store (snd (execute
      \<lparr>conflict = (\<lambda>rows r. False), create_event = (\<lambda>c r. Inl Transport),
       update_event = (\<lambda>c ev r. Inl Transport), delete_event = (\<lambda>c ev. Inl Transport)\<rparr>
      Create
      \<lparr>d_date = Some ''2025-11-14'', d_time = Some ''20:00'', d_party_size = Some 4,
       d_target_id = None\<rparr>
      ''dashboard-demo''
      \<lparr>res_store = [], calendar = (0::nat), event_ids = Map.empty, executed = Map.empty\<rparr>)) = []"
proof -
  let ?co = "\<lparr>conflict = (\<lambda>rows r. False), create_event = (\<lambda>c r. Inl Transport),
       update_event = (\<lambda>c ev r. Inl Transport), delete_event = (\<lambda>c ev. Inl Transport)\<rparr>
       :: nat collaborators"
  let ?d = "\<lparr>d_date = Some ''2025-11-14'', d_time = Some ''20:00'', d_party_size = Some 4,
       d_target_id = None\<rparr>"
  let ?w = "\<lparr>res_store = [], calendar = (0::nat), event_ids = Map.empty, executed = Map.empty\<rparr>"
  have failed: "fst (execute ?co Create ?d ''dashboard-demo'' ?w) = Inl (CalendarSyncFailure Transport)"
    by (simp add: execute_create_def store_create_def Let_def)
  then have "execute ?co Create ?d ''dashboard-demo'' ?w =
      (Inl (CalendarSyncFailure Transport), snd (execute ?co Create ?d ''dashboard-demo'' ?w))"
    by (metis prod.collapse)
  from failed_execution_leaves_store_unchanged [OF this] failed show ?thesis
    by simp
qed

lemma execute_keeps_executed: "executed (snd (execute co kind d customer w)) = executed w"
proof (cases kind)
  case Create
  then show ?thesis
    by (simp add: execute_create_def split: sum.split prod.split)
next
  case Update
  then show ?thesis
    by (simp add: execute_update_def split: sum.split prod.split option.split)
next
  case Cancel
  then show ?thesis
    by (simp add: execute_cancel_def split: sum.split prod.split option.split)
qed

lemma execute_once_marks:
  assumes "execute_once co token kind d customer w = (Inr res, w1)"
  shows "executed w1 token = Some res"
proof (cases "executed w token")
  case None
  with assms show ?thesis
    by (auto simp: execute_once_def split: prod.splits sum.splits)
next
  case (Some previous)
  with assms show ?thesis
    by (simp add: execute_once_def)
qed

lemma execute_once_keeps_mark:
  assumes "executed w token = Some res"
  shows "executed (snd (execute_once co token' kind d customer w)) token = Some res"
proof (cases "executed w token'")
  case (Some previous)
  with assms show ?thesis by (simp add: execute_once_def)
next
  case None
  with assms have differ: "token' \<noteq> token" by auto
  obtain out w1 where ex: "execute co kind d customer w = (out, w1)"
    by (cases "execute co kind d customer w")
  then have "executed w1 = executed w"
    using execute_keeps_executed [of co kind d customer w] by simp
  with assms None differ ex show ?thesis
    by (cases out) (simp_all add: execute_once_def)
qed

lemma execute_all_keeps_mark:
  "executed w token = Some res \<Longrightarrow> executed (execute_all co reqs w) token = Some res"
proof (induction reqs arbitrary: w)
  case Nil
  then show ?case by simp
next
  case (Cons req reqs)
  obtain token' kind d customer where req: "req = (token', kind, d, customer)"
    by (cases req)
  from Cons.prems
  have "executed (snd (execute_once co token' kind d customer w)) token = Some res"
    by (rule execute_once_keeps_mark)
  then show ?case
    unfolding req by (simp add: Cons.IH)
qed

text \<open>
  Claim C3. Once a request bearing a token has been executed with a result, every later
  request bearing that token, whatever it asks for and whatever was executed in
  between, returns that same result and leaves the store, the calendar and all the rest
  as they are: no second reservation, no further mutation.
\<close>

theorem repeated_token_is_noop:
  assumes "execute_once co token kind d customer w = (Inr res, w1)"
  shows "execute_once co' token kind' d' customer' (execute_all co'' reqs w1) =
           (Inr res, execute_all co'' reqs w1)"
proof -
  from assms have "executed w1 token = Some res"
    by (rule execute_once_marks)
  then have "executed (execute_all co'' reqs w1) token = Some res"
    by (rule execute_all_keeps_mark)
  then show ?thesis
    by (simp add: execute_once_def)
qed

text \<open>The theorem at a create under token 7, submitted twice.\<close>

theorem repeated_token_is_noop_witness:
  "execute_once
     \<lparr>conflict = (\<lambda>rows r. False), create_event = (\<lambda>c r. Inr (Suc c, ''evt-1'')),
      update_event = (\<lambda>c ev r. Inr c), delete_event = (\<lambda>c ev. Inr c)\<rparr>
     7 Create
     \<lparr>d_date = Some ''2025-11-14'', d_time = Some ''20:00'', d_party_size = Some 4,
      d_target_id = None\<rparr>
     ''dashboard-demo''
     \<lparr>res_store = [], calendar = (0::nat), event_ids = Map.empty, executed = Map.empty\<rparr> =
   (Inr \<lparr>er_reservation =
           \<lparr>res_id = 1, res_customer = ''dashboard-demo'', res_date = ''2025-11-14'',
            res_time = ''20:00'', res_party_size = 4, res_status = Confirmed,
            res_table = None, res_notes = None\<rparr>,
         er_calendar_event_id = Some ''evt-1''\<rparr>,
    \<lparr>res_store =
       [\<lparr>res_id = 1, res_customer = ''dashboard-demo'', res_date = ''2025-11-14'',
         res_time = ''20:00'', res_party_size = 4, res_status = Confirmed,
         res_table = None, res_notes = None\<rparr>],
     calendar = 1,
     event_ids = [1 \<mapsto> ''evt-1''],
     executed = [7 \<mapsto> \<lparr>er_reservation =
           \<lparr>res_id = 1, res_customer = ''dashboard-demo'', res_date = ''2025-11-14'',
            res_time = ''20:00'', res_party_size = 4, res_status = Confirmed,
            res_table = None, res_notes = None\<rparr>,
         er_calendar_event_id = Some ''evt-1''\<rparr>]\<rparr>) \<and>
   res_store (snd (execute_once
     \<lparr>conflict = (\<lambda>rows r. False), create_event = (\<lambda>c r. Inr (Suc c, ''evt-1'')),
      update_event = (\<lambda>c ev r. Inr c), delete_event = (\<lambda>c ev. Inr c)\<rparr>
     7 Create
     \<lparr>d_date = Some ''2025-11-14'', d_time = Some ''20:00'', d_party_size = Some 4,
      d_target_id = None\<rparr>
     ''dashboard-demo''
     \<lparr>res_store =
       [\<lparr>res_id = 1, res_customer = ''dashboard-demo'', res_date = ''2025-11-14'',
         res_time = ''20:00'', res_party_size = 4, res_status = Confirmed,
         res_table = None, res_notes = None\<rparr>],
     calendar = 1,
     event_ids = [1 \<mapsto> ''evt-1''],
     executed = [7 \<mapsto> \<lparr>er_reservation =
           \<lparr>res_id = 1, res_customer = ''dashboard-demo'', res_date = ''2025-11-14'',
            res_time = ''20:00'', res_party_size = 4, res_status = Confirmed,
            res_table = None, res_notes = None\<rparr>,
         er_calendar_event_id = Some ''evt-1''\<rparr>]\<rparr>)) =
     [\<lparr>res_id = 1, res_customer = ''dashboard-demo'', res_date = ''2025-11-14'',
       res_time = ''20:00'', res_party_size = 4, res_status = Confirmed,
       res_table = None, res_notes = None\<rparr>]"
proof -
  let ?co = "\<lparr>conflict = (\<lambda>rows r. False), create_event = (\<lambda>c r. Inr (Suc c, ''evt-1'')),
      update_event = (\<lambda>c ev r. Inr c), delete_event = (\<lambda>c ev. Inr c)\<rparr> :: nat collaborators"
  let ?d = "\<lparr>d_date = Some ''2025-11-14'', d_time = Some ''20:00'', d_party_size = Some 4,
      d_target_id = None\<rparr>"
  let ?r = "\<lparr>res_id = 1, res_customer = ''dashboard-demo'', res_date = ''2025-11-14'',
            res_time = ''20:00'', res_party_size = 4, res_status = Confirmed,
            res_table = None, res_notes = None\<rparr>"
  let ?res = "\<lparr>er_reservation = ?r, er_calendar_event_id = Some ''evt-1''\<rparr>"
  let ?w1 = "\<lparr>res_store = [?r], calendar = (1::nat), event_ids = [1 \<mapsto> ''evt-1''],
      executed = [7 \<mapsto> ?res]\<rparr>"
  have first: "execute_once ?co 7 Create ?d ''dashboard-demo''
      \<lparr>res_store = [], calendar = (0::nat), event_ids = Map.empty, executed = Map.empty\<rparr> =
      (Inr ?res, ?w1)"
    by (simp add: execute_once_def execute_create_def store_create_def Let_def)
  from repeated_token_is_noop [OF first, of ?co Create ?d "''dashboard-demo''" ?co "[]"]
  have "execute_once ?co 7 Create ?d ''dashboard-demo'' ?w1 = (Inr ?res, ?w1)"
    by simp
  with first show ?thesis
    by simp
qed

lemma pending_flags_exclusive:
  "length (filter (\<lambda>b. b)
     [pending_flag Create pending, pending_flag Update pending, pending_flag Cancel pending]) \<le> 1"
proof (cases pending)
  case None
  then show ?thesis by (simp add: pending_flag_def)
next
  case (Some p)
  then show ?thesis by (cases "pa_kind p") (simp_all add: pending_flag_def)
qed

text \<open>
  Claim C1. A customer's session holds at most one pending action, and the turn result
  of every handled turn reports it: each of the three pending flags is the flag of that
  one slot for its kind, so at most one of them is true.
\<close>

theorem at_most_one_pending_flag:
  "let after = handle_turn ttl router co wording now customer message st in
     length (filter (\<lambda>b. b)
       [tr_pending_reservation (fst after), tr_pending_update (fst after),
        tr_pending_cancel (fst after)]) \<le> 1 \<and>
     tr_pending_reservation (fst after) =
       pending_flag Create (s_pending (sessions (snd after) customer)) \<and>
     tr_pending_update (fst after) =
       pending_flag Update (s_pending (sessions (snd after) customer)) \<and>
     tr_pending_cancel (fst after) =
       pending_flag Cancel (s_pending (sessions (snd after) customer))"
proof -
  define after where "after = handle_turn ttl router co wording now customer message st"
  obtain pending timed_out
    where ex: "expire now (s_pending (sessions st customer)) = (pending, timed_out)"
    by (cases "expire now (s_pending (sessions st customer))")
  define out where "out = dispatch ttl now co customer pending
      (router message (s_history (sessions st customer)) pending) (world st) (next_token st)"
  have res: "fst after = turn_result (wording timed_out (o_reply out)) (o_route out)
      (o_pending out) (o_data out)"
    by (simp add: after_def handle_turn_def Let_def ex out_def)
  have kept: "s_pending (sessions (snd after) customer) = o_pending out"
    by (simp add: after_def handle_turn_def Let_def ex out_def)
  have "length (filter (\<lambda>b. b)
       [tr_pending_reservation (fst after), tr_pending_update (fst after),
        tr_pending_cancel (fst after)]) \<le> 1 \<and>
     tr_pending_reservation (fst after) =
       pending_flag Create (s_pending (sessions (snd after) customer)) \<and>
     tr_pending_update (fst after) =
       pending_flag Update (s_pending (sessions (snd after) customer)) \<and>
     tr_pending_cancel (fst after) =
       pending_flag Cancel (s_pending (sessions (snd after) customer))"
    unfolding res kept using pending_flags_exclusive [of "o_pending out"]
    by (simp add: turn_result_def)
  then show ?thesis
    unfolding after_def Let_def .
qed




end
